theory Spec2Isabelle
  imports Main "HOL-Library.AList" "HOL-Library.Sublist"
begin

section \<open>JavaScript objects as the proxy uses them\<close>

text \<open>
  The proxy (\<^verbatim>\<open>src/index.js\<close>) keeps its tables and its header sets in plain
  JavaScript objects with string keys. Such an object is an association list in
  insertion order, which is the order \<^verbatim>\<open>Object.entries\<close> enumerates.
\<close>

type_synonym 'v object = "(string \<times> 'v) list"

text \<open>
  Reading \<^verbatim>\<open>obj[key]\<close> on an object literal finds the object's own property, and
  otherwise what \<^verbatim>\<open>Object.prototype\<close> holds under that name; only then the result
  is \<^verbatim>\<open>undefined\<close>. The names below are the own properties of
  \<^verbatim>\<open>Object.prototype\<close>: eleven built-in functions and the accessor
  \<^verbatim>\<open>__proto__\<close>, which yields the prototype object itself.
\<close>

datatype 'v jsval = Own 'v | Inherited string | Undefined

definition Object_prototype :: "string list" where
  "Object_prototype =
    [''constructor'', ''__defineGetter__'', ''__defineSetter__'', ''hasOwnProperty'',
     ''__lookupGetter__'', ''__lookupSetter__'', ''isPrototypeOf'',
     ''propertyIsEnumerable'', ''toString'', ''valueOf'', ''__proto__'',
     ''toLocaleString'']"

definition get_property :: "'v object \<Rightarrow> string \<Rightarrow> 'v jsval" where
  "get_property obj key =
    (case map_of obj key of
       Some v \<Rightarrow> Own v
     | None \<Rightarrow> if key \<in> set Object_prototype then Inherited key else Undefined)"

text \<open>
  Truthiness of a looked-up string: the empty string and \<^verbatim>\<open>undefined\<close> are
  falsy, functions and objects are truthy.
\<close>

fun truthy :: "string jsval \<Rightarrow> bool" where
  "truthy (Own s) = (s \<noteq> [])"
| "truthy (Inherited name) = True"
| "truthy Undefined = False"

text \<open>
  The string a value turns into as the left operand of \<^verbatim>\<open>+\<close> with a string: a
  built-in function prints as its native-code source, the prototype object as
  \<^verbatim>\<open>[object Object]\<close>.
\<close>

fun toString :: "string jsval \<Rightarrow> string" where
  "toString (Own s) = s"
| "toString (Inherited name) =
    (if name = ''__proto__'' then ''[object Object]''
     else ''function '' @ (if name = ''constructor'' then ''Object'' else name)
          @ ''() { [native code] }'')"
| "toString Undefined = ''undefined''"

text \<open>
  \<^verbatim>\<open>!requestHost\<close> on the value of \<^verbatim>\<open>req.headers.host\<close>: an absent header
  (\<open>None\<close>) and the empty string are falsy.
\<close>

fun falsy_host :: "string option \<Rightarrow> bool" where
  "falsy_host None = True"
| "falsy_host (Some h) = (h = [])"

text \<open>A property key is a string; \<^verbatim>\<open>undefined\<close> as a key is the string of that name.\<close>

fun property_key :: "string option \<Rightarrow> string" where
  "property_key None = ''undefined''"
| "property_key (Some h) = h"

subsection \<open>Objects on a heap\<close>

text \<open>
  Header objects are passed by reference and \<^verbatim>\<open>sanitizeHeaders\<close> deletes
  properties in place, so it is modelled on a heap: a list of objects, an address being
  an index into it. The object spread \<^verbatim>\<open>{ ...headers }\<close> allocates a new object
  with the same entries; \<^verbatim>\<open>delete o[k]\<close> and \<^verbatim>\<open>o[k] = v\<close> update the object at
  an address.
\<close>

type_synonym 'v heap = "'v object list"

definition spread :: "'v heap \<Rightarrow> nat \<Rightarrow> nat \<times> 'v heap" where
  "spread hp src = (length hp, hp @ [hp ! src])"

definition delete_property :: "'v heap \<Rightarrow> nat \<Rightarrow> string \<Rightarrow> 'v heap" where
  "delete_property hp a key = hp[a := AList.delete key (hp ! a)]"

definition set_property :: "'v heap \<Rightarrow> nat \<Rightarrow> string \<Rightarrow> 'v \<Rightarrow> 'v heap" where
  "set_property hp a key v = hp[a := AList.update key v (hp ! a)]"

section \<open>Configuration tables\<close>

record gateway_config =
  target :: string
  host :: string

definition REDIRECTION_MAP :: "string object" where
  "REDIRECTION_MAP =
    [(''pay.v1-domain.com'', ''https://api.myapp.com''),
     (''pay.v2-domain.com'', ''https://api.myapp.com'')]"

definition PAYMENT_GATEWAYS :: "gateway_config object" where
  "PAYMENT_GATEWAYS =
    [(''vandar'', \<lparr>target = ''https://ipg.vandar.io'', host = ''ipg.vandar.io''\<rparr>),
     (''zibal'', \<lparr>target = ''https://gateway.zibal.ir'', host = ''gateway.zibal.ir''\<rparr>),
     (''zarinpal'',
        \<lparr>target = ''https://payment.zarinpal.com'', host = ''payment.zarinpal.com''\<rparr>)]"

definition HOST_CONFIG :: "string object" where
  "HOST_CONFIG =
    [(''pay.v1-domain.com'', ''https://v1-domain.com/''),
     (''pay.v2-domain.com'', ''https://v1-domain.com/'')]"

definition HOP_BY_HOP_HEADERS :: "string list" where
  "HOP_BY_HOP_HEADERS =
    [''connection'', ''upgrade'', ''proxy-authorization'', ''proxy-authenticate'',
     ''te'', ''trailer'', ''transfer-encoding'']"

section \<open>sanitizeHeaders\<close>

text \<open>
  \<^verbatim>\<open>const sanitized = { ...headers };\<close>
  \<^verbatim>\<open>HOP_BY_HOP_HEADERS.forEach((header) => delete sanitized[header]);\<close>
  \<^verbatim>\<open>return sanitized;\<close>
  The function returns the address of the copy together with the heap after the deletions.
\<close>

definition sanitizeHeaders :: "'v heap \<Rightarrow> nat \<Rightarrow> nat \<times> 'v heap" where
  "sanitizeHeaders hp headers =
    (let (sanitized, hp1) = spread hp headers
     in (sanitized,
         foldl (\<lambda>h header. delete_property h sanitized header) hp1 HOP_BY_HOP_HEADERS))"

text \<open>
  The specification's reading of a hop-by-hop name, used only to state its claim: a
  name that equals one of the seven after lower-casing its ASCII letters.
\<close>

definition lower_char :: "char \<Rightarrow> char" where
  "lower_char c =
    (case map_of (zip ''ABCDEFGHIJKLMNOPQRSTUVWXYZ'' ''abcdefghijklmnopqrstuvwxyz'') c of
       Some l \<Rightarrow> l
     | None \<Rightarrow> c)"

definition toLowerCase :: "string \<Rightarrow> string" where
  "toLowerCase s = map lower_char s"

definition spec_hop_by_hop :: "string \<Rightarrow> bool" where
  "spec_hop_by_hop name = (toLowerCase name \<in> set HOP_BY_HOP_HEADERS)"

text \<open>A header value as Node hands it over: one string, or a list for repeated headers.\<close>

datatype header_value = Single string | Multiple "string list"

section \<open>The inbound response\<close>

text \<open>
  What the proxy observes and changes of Node's \<^verbatim>\<open>http.ServerResponse\<close>: the
  flags \<^verbatim>\<open>headersSent\<close>, \<^verbatim>\<open>destroyed\<close> and \<^verbatim>\<open>writableEnded\<close>, the status
  code and the header object given to \<^verbatim>\<open>writeHead\<close>, and the chunks handed to
  \<^verbatim>\<open>write\<close> and \<^verbatim>\<open>end\<close>. Headers that Node adds by itself (Date, Connection,
  the body framing) are not part of the model, and neither is Node's validation of
  header names and values.
\<close>

text \<open>
  The exceptions that occur: the two that \<^verbatim>\<open>res.writeHead\<close> raises, the TypeError
  of a method call on \<^verbatim>\<open>null\<close>, and the two that \<^verbatim>\<open>url.parse\<close> raises.
\<close>

datatype js_error =
    ERR_HTTP_HEADERS_SENT
  | ERR_HTTP_INVALID_STATUS_CODE
  | TypeError
  | URIError
  | ERR_INVALID_URL

record response =
  headersSent :: bool
  destroyed :: bool
  writableEnded :: bool
  statusCode :: nat
  sentHeaders :: "header_value object"
  body :: "string list"

text \<open>The response object a new request arrives with.\<close>

definition new_response :: response where
  "new_response =
    \<lparr>headersSent = False, destroyed = False, writableEnded = False, statusCode = 200,
     sentHeaders = [], body = []\<rparr>"

text \<open>
  \<^verbatim>\<open>res.writeHead(status, headers)\<close> raises when the head has been written before,
  and raises a RangeError when the status code is below 100 or above 999; otherwise the
  head is stored and \<^verbatim>\<open>headersSent\<close> turns true.
\<close>

definition writeHead :: "nat \<Rightarrow> header_value object \<Rightarrow> response \<Rightarrow> js_error + response" where
  "writeHead status hs r =
    (if headersSent r then Inl ERR_HTTP_HEADERS_SENT
     else if status < 100 \<or> 999 < status then Inl ERR_HTTP_INVALID_STATUS_CODE
     else Inr (r\<lparr>statusCode := status, sentHeaders := hs, headersSent := True\<rparr>))"

text \<open>
  \<^verbatim>\<open>res.write(chunk)\<close> and \<^verbatim>\<open>res.end(chunk)\<close>: a chunk reaches the peer only while
  the response is neither ended nor destroyed; \<^verbatim>\<open>end\<close> finishes the response once.
\<close>

definition res_write :: "string \<Rightarrow> response \<Rightarrow> response" where
  "res_write chunk r =
    (if writableEnded r \<or> destroyed r then r
     else r\<lparr>body := body r @ [chunk], headersSent := True\<rparr>)"

definition res_end :: "string option \<Rightarrow> response \<Rightarrow> response" where
  "res_end chunk r =
    (if writableEnded r then r
     else r\<lparr>body := (if destroyed r then body r
                     else body r @ (case chunk of None \<Rightarrow> [] | Some c \<Rightarrow> [c])),
            writableEnded := True, headersSent := True\<rparr>)"

section \<open>The handlers\<close>

definition sendError :: "response \<Rightarrow> nat \<Rightarrow> string \<Rightarrow> js_error + response" where
  "sendError r status message =
    (if headersSent r \<or> destroyed r then Inr r
     else (case writeHead status [(''Content-Type'', Single ''text/plain'')] r of
             Inl e \<Rightarrow> Inl e
           | Inr r1 \<Rightarrow> Inr (res_end (Some message) r1)))"

definition handleCorsPreflightRequest :: "response \<Rightarrow> js_error + response" where
  "handleCorsPreflightRequest r =
    (case writeHead 200
            [(''Access-Control-Allow-Origin'', Single ''*''),
             (''Access-Control-Allow-Methods'', Single ''GET, POST, PUT, DELETE, OPTIONS''),
             (''Access-Control-Allow-Headers'', Single ''Content-Type, Authorization'')] r of
       Inl e \<Rightarrow> Inl e
     | Inr r1 \<Rightarrow> Inr (res_end None r1))"

definition handleRedirect :: "response \<Rightarrow> string \<Rightarrow> js_error + response" where
  "handleRedirect r targetUrl =
    (case writeHead 302
            [(''Location'', Single targetUrl),
             (''Content-Type'', Single ''text/plain''),
             (''Access-Control-Allow-Origin'', Single ''*'')] r of
       Inl e \<Rightarrow> Inl e
     | Inr r1 \<Rightarrow> Inr (res_end (Some (''Redirecting to '' @ targetUrl)) r1))"

section \<open>handleRequest\<close>

text \<open>
  Of the request, handleRequest reads \<^verbatim>\<open>req.method\<close>, \<^verbatim>\<open>req.headers.host\<close>
  (absent: \<open>None\<close>) and \<^verbatim>\<open>req.url\<close>.
\<close>

record request =
  req_method :: string
  headers_host :: "string option"
  url :: string

text \<open>
  What a call of handleRequest has done when it returns or suspends: it has answered on
  the response, or it awaits
  \<^verbatim>\<open>this.handlePaymentGatewayProxy(req, res, gateway, finalPath, referrer)\<close>.
\<close>

datatype handled =
    Responded response
  | HandlePaymentGatewayProxy string string "string jsval" response

text \<open>
  The loop over \<^verbatim>\<open>Object.entries(PAYMENT_GATEWAYS)\<close>. The pathname of the parsed URL
  may be \<^verbatim>\<open>null\<close> (\<open>None\<close>), on which \<^verbatim>\<open>pathname.startsWith\<close> raises a TypeError.
  \<^verbatim>\<open>substring\<close> past the end of the string yields the empty string, as \<open>drop\<close> does.
\<close>

fun gateway_loop ::
  "gateway_config object \<Rightarrow> string option \<Rightarrow> string \<Rightarrow> js_error + (string \<times> string) option"
where
  "gateway_loop [] pathname originalPath = Inr None"
| "gateway_loop ((gateway, config) # rest) pathname originalPath =
    (case pathname of
       None \<Rightarrow> Inl TypeError
     | Some pn \<Rightarrow>
        (let pathPrefix = ''/'' @ gateway @ ''/'' in
         if prefix pathPrefix pn then
           (let targetPath = drop (length pathPrefix - 1) originalPath;
                finalPath = (if prefix ''/'' targetPath then targetPath else ''/'' @ targetPath)
            in Inr (Some (gateway, finalPath)))
         else gateway_loop rest pathname originalPath))"

text \<open>
  The parameter \<open>url_parse\<close> stands for \<^verbatim>\<open>url.parse(originalPath)\<close> of Node's library,
  as far as handleRequest uses it: the call raises (\<open>Inl\<close>), or it returns an object
  whose \<^verbatim>\<open>pathname\<close> is a string or \<^verbatim>\<open>null\<close>. The call is the third statement of
  handleRequest, before the test for OPTIONS and before the host check.
\<close>

definition handleRequest ::
  "(string \<Rightarrow> js_error + string option) \<Rightarrow> request \<Rightarrow> response \<Rightarrow> js_error + handled"
where
  "handleRequest url_parse req r =
    (let requestHost = headers_host req;
         originalPath = url req
     in
     case url_parse originalPath of
       Inl e \<Rightarrow> Inl e
     | Inr pathname \<Rightarrow>
        if req_method req = ''OPTIONS''
        then map_sum id Responded (handleCorsPreflightRequest r)
        else if falsy_host requestHost
                \<or> \<not> truthy (get_property HOST_CONFIG (property_key requestHost))
        then map_sum id Responded (sendError r 400 ''Bad Request: Unrecognized host'')
        else
         (let referrer = get_property HOST_CONFIG (property_key requestHost) in
          case gateway_loop PAYMENT_GATEWAYS pathname originalPath of
            Inl e \<Rightarrow> Inl e
          | Inr (Some (gateway, finalPath)) \<Rightarrow>
              Inr (HandlePaymentGatewayProxy gateway finalPath referrer r)
          | Inr None \<Rightarrow>
             (let targetBaseUrl = get_property REDIRECTION_MAP (property_key requestHost) in
              if truthy targetBaseUrl
              then map_sum id Responded
                     (handleRedirect r (toString targetBaseUrl @ originalPath))
              else map_sum id Responded
                     (sendError r 400 ''Bad Request: No redirect target configured''))))"

text \<open>
  The request listener of \<^verbatim>\<open>start\<close>: an exception that escapes handleRequest rejects
  its promise, and the \<^verbatim>\<open>catch\<close> answers with
  \<^verbatim>\<open>this.sendError(res, 500, "Internal Server Error")\<close>. Every exception of
  handleRequest is raised before anything is written, so the response is still the one
  the listener was called with.
\<close>

definition requestListener ::
  "(string \<Rightarrow> js_error + string option) \<Rightarrow> request \<Rightarrow> response \<Rightarrow> js_error + handled"
where
  "requestListener url_parse req r =
    (case handleRequest url_parse req r of
       Inl error \<Rightarrow> map_sum id Responded (sendError r 500 ''Internal Server Error'')
     | Inr outcome \<Rightarrow> Inr outcome)"

text \<open>
  The pathname of an origin-form request target (a path, then an optional query): the
  part before the first \<^verbatim>\<open>?\<close> or \<^verbatim>\<open>#\<close>, and \<^verbatim>\<open>null\<close> when that part is empty.
\<close>

definition origin_form_pathname :: "string \<Rightarrow> string option" where
  "origin_form_pathname u =
    (let p = takeWhile (\<lambda>c. c \<noteq> CHR ''?'' \<and> c \<noteq> CHR ''#'') u
     in if p = [] then None else Some p)"

text \<open>
  A percent sign that is not followed by two hexadecimal digits: on such a string
  \<^verbatim>\<open>decodeURIComponent\<close> raises a URIError.
\<close>

definition is_hex :: "char \<Rightarrow> bool" where
  "is_hex c = (c \<in> set ''0123456789abcdefABCDEF'')"

fun malformed_escape :: "string \<Rightarrow> bool" where
  "malformed_escape [] = False"
| "malformed_escape (c # cs) =
    (if c = CHR ''%''
     then \<not> (case cs of h1 # h2 # rest \<Rightarrow> is_hex h1 \<and> is_hex h2 | _ \<Rightarrow> False)
          \<or> malformed_escape cs
     else malformed_escape cs)"

text \<open>
  A model of \<^verbatim>\<open>url.parse\<close> that instantiates \<open>url_parse\<close> at the concrete requests
  below. It covers two shapes of request target. A target \<^verbatim>\<open>//user@host...\<close> is read
  as user information and host: the user information is decoded, which raises on a
  malformed escape, and the pathname is what follows the host. Any other target is read as
  origin form. Targets with a scheme, with a backslash, or with a well-formed escape in
  the user information are outside the model and are not used.
\<close>

definition url_parse_pathname :: "string \<Rightarrow> js_error + string option" where
  "url_parse_pathname u =
    (let afterSlashes = drop 2 u;
         auth = takeWhile (\<lambda>c. c \<noteq> CHR ''@'' \<and> c \<noteq> CHR ''/'') afterSlashes;
         afterAuth = drop (length auth) afterSlashes;
         hostname = takeWhile (\<lambda>c. c \<notin> set ''@/?#'') (drop 1 afterAuth)
     in if prefix ''//'' u \<and> auth \<noteq> [] \<and> prefix ''@'' afterAuth \<and> hostname \<noteq> []
        then (if malformed_escape auth then Inl URIError
              else Inr (origin_form_pathname (drop (1 + length hostname) afterAuth)))
        else Inr (origin_form_pathname u))"

section \<open>proxyRequest and the await in handlePaymentGatewayProxy\<close>

text \<open>
  proxyRequest returns a promise and registers event handlers; what happens afterwards
  is driven by the events of the outbound request \<^verbatim>\<open>proxyReq\<close>, of the upstream
  response \<^verbatim>\<open>proxyRes\<close> and of the inbound request \<^verbatim>\<open>req\<close>. The state the handlers
  share is the inbound response, the heap holding the header objects, whether
  \<^verbatim>\<open>proxyReq\<close> has been destroyed, whether the handlers on \<^verbatim>\<open>proxyRes\<close> are
  registered (they are registered in the response callback, after
  \<^verbatim>\<open>res.writeHead\<close>), and the promise. The headers of the outbound request are not
  part of the model.
\<close>

datatype promise = Pending | Resolved | Rejected string

record proxy_state =
  res :: response
  heap :: "header_value heap"
  proxyReq_destroyed :: bool
  proxyRes_listening :: bool
  promise :: promise

text \<open>
  \<open>Response status a\<close> is the response callback of \<^verbatim>\<open>httpModule.request\<close> with
  \<^verbatim>\<open>proxyRes.statusCode = status\<close> and \<^verbatim>\<open>proxyRes.headers\<close> at address \<open>a\<close>;
  \<open>Data\<close>, \<open>End\<close> and \<open>ResponseError\<close> are the events of \<^verbatim>\<open>proxyRes\<close>,
  \<open>RequestError\<close> and \<open>Timeout\<close> those of \<^verbatim>\<open>proxyReq\<close>, \<open>Close\<close> and
  \<open>ClientError\<close> those of \<^verbatim>\<open>req\<close>.
\<close>

datatype event =
    Response nat nat
  | Data string
  | End
  | ResponseError string
  | RequestError string
  | Timeout
  | Close
  | ClientError string

text \<open>Settling a promise has an effect only while it is pending.\<close>

definition resolve :: "proxy_state \<Rightarrow> proxy_state" where
  "resolve st = (if promise st = Pending then st\<lparr>promise := Resolved\<rparr> else st)"

definition reject :: "string \<Rightarrow> proxy_state \<Rightarrow> proxy_state" where
  "reject e st = (if promise st = Pending then st\<lparr>promise := Rejected e\<rparr> else st)"

definition destroy_proxyReq :: "proxy_state \<Rightarrow> proxy_state" where
  "destroy_proxyReq st = st\<lparr>proxyReq_destroyed := True\<rparr>"

text \<open>The response callback: lines 138 to 147, and the registration of lines 150 to 170.\<close>

definition on_response :: "nat \<Rightarrow> nat \<Rightarrow> proxy_state \<Rightarrow> js_error + proxy_state" where
  "on_response status proxyRes_headers st =
    (let (responseHeaders, hp1) = sanitizeHeaders (heap st) proxyRes_headers;
         hp2 = set_property hp1 responseHeaders ''Access-Control-Allow-Origin'' (Single ''*'');
         hp3 = set_property hp2 responseHeaders ''Access-Control-Allow-Methods''
                 (Single ''GET, POST, PUT, DELETE, OPTIONS'');
         hp4 = set_property hp3 responseHeaders ''Access-Control-Allow-Headers''
                 (Single ''Content-Type, Authorization'')
     in case writeHead status (hp4 ! responseHeaders) (res st) of
          Inl e \<Rightarrow> Inl e
        | Inr r \<Rightarrow> Inr (st\<lparr>res := r, heap := hp4, proxyRes_listening := True\<rparr>))"

text \<open>
  One event, handled by the handler proxyRequest registered for it. An exception in a
  handler (\<open>Inl\<close>) is outside every promise and is not caught.
\<close>

fun proxyRequest_event :: "event \<Rightarrow> proxy_state \<Rightarrow> js_error + proxy_state" where
  "proxyRequest_event (Response status proxyRes_headers) st =
     on_response status proxyRes_headers st"
| "proxyRequest_event (Data chunk) st =
     Inr (if proxyRes_listening st \<and> \<not> destroyed (res st)
          then st\<lparr>res := res_write chunk (res st)\<rparr> else st)"
| "proxyRequest_event End st =
     Inr (if proxyRes_listening st
          then resolve (if \<not> destroyed (res st) then st\<lparr>res := res_end None (res st)\<rparr> else st)
          else st)"
| "proxyRequest_event (ResponseError e) st =
     (if proxyRes_listening st
      then (case sendError (res st) 500 ''Internal Server Error'' of
              Inl err \<Rightarrow> Inl err
            | Inr r \<Rightarrow> Inr (reject e (st\<lparr>res := r\<rparr>)))
      else Inr st)"
| "proxyRequest_event (RequestError e) st =
     (case sendError (res st) 500 ''Internal Server Error'' of
        Inl err \<Rightarrow> Inl err
      | Inr r \<Rightarrow> Inr (reject e (st\<lparr>res := r\<rparr>)))"
| "proxyRequest_event Timeout st =
     (let st1 = destroy_proxyReq st in
      case sendError (res st1) 504 ''Gateway Timeout'' of
        Inl err \<Rightarrow> Inl err
      | Inr r \<Rightarrow> Inr (reject ''Request timeout'' (st1\<lparr>res := r\<rparr>)))"
| "proxyRequest_event Close st =
     Inr (if \<not> proxyReq_destroyed st then destroy_proxyReq st else st)"
| "proxyRequest_event (ClientError e) st =
     Inr (reject e (if \<not> proxyReq_destroyed st then destroy_proxyReq st else st))"

text \<open>
  handlePaymentGatewayProxy awaits the promise inside \<^verbatim>\<open>try\<close>; when a handler rejects
  the pending promise, the \<^verbatim>\<open>catch\<close> block runs next and calls
  \<^verbatim>\<open>this.sendError(res, 500, "Proxy Error")\<close>.
\<close>

definition handlePaymentGatewayProxy_event ::
  "event \<Rightarrow> proxy_state \<Rightarrow> js_error + proxy_state"
where
  "handlePaymentGatewayProxy_event ev st =
    (case proxyRequest_event ev st of
       Inl err \<Rightarrow> Inl err
     | Inr st1 \<Rightarrow>
        (case (promise st, promise st1) of
           (Pending, Rejected e) \<Rightarrow>
             (case sendError (res st1) 500 ''Proxy Error'' of
                Inl err \<Rightarrow> Inl err
              | Inr r \<Rightarrow> Inr (st1\<lparr>res := r\<rparr>))
         | _ \<Rightarrow> Inr st1))"

fun run_events :: "event list \<Rightarrow> proxy_state \<Rightarrow> js_error + proxy_state" where
  "run_events [] st = Inr st"
| "run_events (ev # evs) st =
     (case handlePaymentGatewayProxy_event ev st of
        Inl err \<Rightarrow> Inl err
      | Inr st1 \<Rightarrow> run_events evs st1)"

text \<open>
  An invariant of the forwarding states: the handlers on \<^verbatim>\<open>proxyRes\<close> are registered
  only after the inbound head has been written.
\<close>

definition head_before_listening :: "proxy_state \<Rightarrow> bool" where
  "head_before_listening st = (proxyRes_listening st \<longrightarrow> headersSent (res st))"

section \<open>setupGracefulShutdown\<close>

text \<open>
  The process as the shutdown code sees it: whether the server still holds its listening
  handle, the armed forced-exit timers (all with the same delay, so they expire in the
  order they were armed), the callbacks waiting for the server's \<^verbatim>\<open>close\<close> event, the
  console and the exit status. A callback is recorded with the timer it clears and with
  whether \<^verbatim>\<open>server.close\<close> will pass it an error, which Node does when the server was
  not open at the call.
\<close>

datatype log_line = SignalReceived string | ForcedShutdown | ShutdownError | ServerClosed

record process =
  listening :: bool
  timers :: "nat list"
  next_timer :: nat
  close_callbacks :: "(nat \<times> bool) list"
  console :: "log_line list"
  exit_status :: "nat option"

definition running_server :: process where
  "running_server =
    \<lparr>listening = True, timers = [], next_timer = 0, close_callbacks = [], console = [],
     exit_status = None\<rparr>"

text \<open>\<^verbatim>\<open>process.exit\<close> ends the process: nothing runs after it.\<close>

definition process_exit :: "nat \<Rightarrow> process \<Rightarrow> process" where
  "process_exit status p = (if exit_status p = None then p\<lparr>exit_status := Some status\<rparr> else p)"

definition server_close :: "nat \<Rightarrow> process \<Rightarrow> process" where
  "server_close shutdownTimer p =
    p\<lparr>close_callbacks := close_callbacks p @ [(shutdownTimer, \<not> listening p)],
      listening := False\<rparr>"

definition shutdown :: "string \<Rightarrow> process \<Rightarrow> process" where
  "shutdown signal p =
    (if exit_status p \<noteq> None then p
     else
      (let p1 = p\<lparr>console := console p @ [SignalReceived signal]\<rparr>;
           shutdownTimer = next_timer p1;
           p2 = p1\<lparr>timers := timers p1 @ [shutdownTimer], next_timer := Suc shutdownTimer\<rparr>
       in server_close shutdownTimer p2))"

text \<open>The earliest armed timer expires: lines 317 to 320.\<close>

definition timer_expires :: "process \<Rightarrow> process" where
  "timer_expires p =
    (if exit_status p \<noteq> None then p
     else (case timers p of
             [] \<Rightarrow> p
           | t # ts \<Rightarrow> process_exit 1 (p\<lparr>timers := ts, console := console p @ [ForcedShutdown]\<rparr>)))"

text \<open>The callback given to \<^verbatim>\<open>server.close\<close>: lines 322 to 332.\<close>

fun close_callback :: "nat \<times> bool \<Rightarrow> process \<Rightarrow> process" where
  "close_callback (shutdownTimer, error) p =
    (if exit_status p \<noteq> None then p
     else
      (let p1 = p\<lparr>timers := removeAll shutdownTimer (timers p)\<rparr> in
       if error then process_exit 1 (p1\<lparr>console := console p1 @ [ShutdownError]\<rparr>)
       else process_exit 0 (p1\<lparr>console := console p1 @ [ServerClosed]\<rparr>)))"

text \<open>
  The server emits \<^verbatim>\<open>close\<close> once it has stopped listening and its connections have
  ended; the waiting callbacks run in the order they were registered.
\<close>

definition server_emits_close :: "process \<Rightarrow> process" where
  "server_emits_close p =
    (if exit_status p \<noteq> None \<or> listening p then p
     else foldl (\<lambda>q cb. close_callback cb q) (p\<lparr>close_callbacks := []\<rparr>) (close_callbacks p))"

datatype process_event = Signal string | TimerExpires | ServerClose

fun process_step :: "process_event \<Rightarrow> process \<Rightarrow> process" where
  "process_step (Signal signal) p = shutdown signal p"
| "process_step TimerExpires p = timer_expires p"
| "process_step ServerClose p = server_emits_close p"

fun run_process :: "process_event list \<Rightarrow> process \<Rightarrow> process" where
  "run_process [] p = p"
| "run_process (ev # evs) p = run_process evs (process_step ev p)"

fun is_signal :: "process_event \<Rightarrow> bool" where
  "is_signal (Signal signal) = True"
| "is_signal TimerExpires = False"
| "is_signal ServerClose = False"

text \<open>
  The state between the first signal and the end of the process: the server has stopped
  listening, a forced-exit timer is armed, and the callback registered first was
  registered without an error.
\<close>

definition draining :: "process \<Rightarrow> bool" where
  "draining p =
    (\<not> listening p \<and> exit_status p = None \<and> timers p \<noteq> []
     \<and> (case close_callbacks p of [] \<Rightarrow> False | (t, error) # cbs \<Rightarrow> \<not> error))"

section \<open>Properties of sanitizeHeaders\<close>

lemma delete_as_filter: "AList.delete k al = filter (\<lambda>(k', v). k' \<noteq> k) al"
  by (induction al) (auto simp: AList.delete_eq)

lemma delete_fold_on_copy:
  "foldl (\<lambda>h header. delete_property h (length hp) header) (hp @ [x]) ks
     = hp @ [filter (\<lambda>(k, v). k \<notin> set ks) x]"
proof (induction ks arbitrary: x)
  case Nil
  show ?case by simp
next
  case (Cons k ks)
  have step: "delete_property (hp @ [x]) (length hp) k = hp @ [AList.delete k x]"
    by (simp add: delete_property_def)
  have "filter (\<lambda>(k', v). k' \<notin> set ks) (AList.delete k x)
          = filter (\<lambda>(k', v). k' \<notin> set (k # ks)) x"
    by (induction x) (auto simp: delete_as_filter)
  with Cons.IH [of "AList.delete k x"] step show ?case by simp
qed

lemma sanitizeHeaders_copy:
  assumes "headers < length hp"
  shows "sanitizeHeaders hp headers
           = (length hp,
              hp @ [filter (\<lambda>(k, v). k \<notin> set HOP_BY_HOP_HEADERS) (hp ! headers)])"
  using assms
  by (simp add: sanitizeHeaders_def spread_def delete_fold_on_copy nth_append)

text \<open>
  C2 (as amended). For every heap and every header object in it, sanitizeHeaders
  allocates a new object and leaves every existing object, the argument included, as it
  was. The new object holds the argument's entries, in their order and unchanged, except
  those whose key is exactly (case-sensitively) one of the seven lower-case names of
  HOP_BY_HOP_HEADERS. The function has no failing branch.
\<close>

theorem sanitizeHeaders_removes_exact_names:
  assumes "headers < length hp"
  shows "sanitizeHeaders hp headers
           = (length hp,
              hp @ [filter (\<lambda>(k, v). k \<notin> set HOP_BY_HOP_HEADERS) (hp ! headers)])"
  using assms by (rule sanitizeHeaders_copy)

text \<open>
  An instance: \<^verbatim>\<open>connection\<close> and \<^verbatim>\<open>te\<close> are deleted from the copy at address 1,
  \<^verbatim>\<open>content-type\<close> stays, and the object at address 0 is as before.
\<close>

theorem sanitizeHeaders_removes_exact_names_witness:
  "(0::nat) < length [[(''connection'', Single ''keep-alive''), (''te'', Single ''trailers''),
                       (''content-type'', Single ''text/html'')]]
   \<and> sanitizeHeaders
         [[(''connection'', Single ''keep-alive''), (''te'', Single ''trailers''),
           (''content-type'', Single ''text/html'')]] 0
       = (1, [[(''connection'', Single ''keep-alive''), (''te'', Single ''trailers''),
               (''content-type'', Single ''text/html'')],
              [(''content-type'', Single ''text/html'')]])"
  using sanitizeHeaders_removes_exact_names
    [of 0 "[[(''connection'', Single ''keep-alive''), (''te'', Single ''trailers''),
             (''content-type'', Single ''text/html'')]]"]
  by (simp add: HOP_BY_HOP_HEADERS_def)

text \<open>
  The claim as stated fails: the key \<^verbatim>\<open>Connection\<close> is a hop-by-hop name under
  case-insensitive comparison, and its entry is still in the copy.
\<close>

theorem sanitizeHeaders_keeps_other_casing:
  "spec_hop_by_hop ''Connection''
   \<and> sanitizeHeaders [[(''Connection'', Single ''keep-alive'')]] 0
       = (1, [[(''Connection'', Single ''keep-alive'')],
              [(''Connection'', Single ''keep-alive'')]])"
  by (simp add: spec_hop_by_hop_def toLowerCase_def lower_char_def HOP_BY_HOP_HEADERS_def
      sanitizeHeaders_def spread_def delete_property_def)

section \<open>Properties of the response writers\<close>

lemma sendError_cases:
  assumes "100 \<le> status" and "status \<le> 999"
  shows "sendError r status message
     = Inr (if headersSent r \<or> destroyed r then r
            else r\<lparr>statusCode := status,
                   sentHeaders := [(''Content-Type'', Single ''text/plain'')],
                   headersSent := True,
                   body := (if writableEnded r then body r else body r @ [message]),
                   writableEnded := True\<rparr>)"
  using assms by (simp add: sendError_def writeHead_def res_end_def)

lemma sendError_settles:
  assumes "sendError r status message = Inr r1"
  shows "headersSent r1 \<or> destroyed r1"
  using assms
  by (auto simp: sendError_def writeHead_def res_end_def split: if_splits)

lemma sendError_new_response:
  assumes "100 \<le> status" and "status \<le> 999"
  shows "sendError new_response status message
     = Inr \<lparr>headersSent = True, destroyed = False, writableEnded = True, statusCode = status,
            sentHeaders = [(''Content-Type'', Single ''text/plain'')], body = [message]\<rparr>"
  using assms by (simp add: sendError_def new_response_def writeHead_def res_end_def)


section \<open>Properties of handleRequest\<close>

lemma known_host_iff:
  "map_of HOST_CONFIG h = Some referrer \<longleftrightarrow>
     (h = ''pay.v1-domain.com'' \<or> h = ''pay.v2-domain.com'')
     \<and> referrer = ''https://v1-domain.com/''"
  by (auto simp: HOST_CONFIG_def split: if_splits)

lemma known_host_passes:
  assumes "map_of HOST_CONFIG h = Some referrer"
  shows "get_property HOST_CONFIG h = Own referrer" and "truthy (get_property HOST_CONFIG h)"
proof -
  show "get_property HOST_CONFIG h = Own referrer"
    using assms by (simp add: get_property_def)
  moreover have "referrer \<noteq> []"
    using assms by (auto simp: known_host_iff)
  ultimately show "truthy (get_property HOST_CONFIG h)" by simp
qed

lemma gateway_loop_match:
  assumes "k \<in> fst ` set PAYMENT_GATEWAYS" and "prefix (''/'' @ k @ ''/'') pn"
  shows "gateway_loop PAYMENT_GATEWAYS (Some pn) (''/'' @ k @ ''/'' @ p)
           = Inr (Some (k, ''/'' @ p))"
proof -
  from assms(2) obtain zs where pn: "pn = ''/'' @ k @ ''/'' @ zs"
    by (auto simp: prefix_def)
  from assms(1) have "k = ''vandar'' \<or> k = ''zibal'' \<or> k = ''zarinpal''"
    by (auto simp: PAYMENT_GATEWAYS_def)
  then show ?thesis
    by (auto simp: PAYMENT_GATEWAYS_def pn)
qed


lemma parse_error_escapes:
  assumes "url_parse (url req) = Inl e"
  shows "handleRequest url_parse req r = Inl e"
  using assms by (simp add: handleRequest_def)

lemma exception_is_500:
  assumes "handleRequest url_parse req new_response = Inl e"
  shows "requestListener url_parse req new_response
           = Inr (Responded
               \<lparr>headersSent = True, destroyed = False, writableEnded = True, statusCode = 500,
                sentHeaders = [(''Content-Type'', Single ''text/plain'')],
                body = [''Internal Server Error'']\<rparr>)"
  using assms by (simp add: requestListener_def sendError_new_response)

text \<open>
  C1 (as amended). For every configured gateway key \<open>k\<close>, every known host and every
  suffix \<open>p\<close>, a request that is not OPTIONS and whose target is \<^verbatim>\<open>/k/p\<close> is handed to
  handlePaymentGatewayProxy with gateway \<open>k\<close>, path \<^verbatim>\<open>/p\<close> and the host's entry of
  HOST_CONFIG as referrer. With \<open>p\<close> empty, that is for the target \<^verbatim>\<open>/k/\<close>, the path
  is \<^verbatim>\<open>/\<close>. The assumption on \<open>url_parse\<close> says that the target is parsed and that
  the parsed pathname begins with \<^verbatim>\<open>/k/\<close> as the target does.
\<close>

theorem gateway_path_is_proxied:
  assumes "req_method req \<noteq> ''OPTIONS''"
    and "headers_host req = Some h" and "map_of HOST_CONFIG h = Some referrer"
    and "k \<in> fst ` set PAYMENT_GATEWAYS"
    and "url req = ''/'' @ k @ ''/'' @ p"
    and "url_parse (url req) = Inr (Some pn)" and "prefix (''/'' @ k @ ''/'') pn"
  shows "handleRequest url_parse req r
           = Inr (HandlePaymentGatewayProxy k (''/'' @ p) (Own referrer) r)"
proof -
  have "gateway_loop PAYMENT_GATEWAYS (Some pn) (url req) = Inr (Some (k, ''/'' @ p))"
    using gateway_loop_match [OF assms(4) assms(7)] assms(5) by simp
  moreover have "\<not> falsy_host (headers_host req)"
    using assms(2,3) by (auto simp: known_host_iff)
  ultimately show ?thesis
    using assms(1,2,6) known_host_passes [OF assms(3)]
    by (simp add: handleRequest_def)
qed

text \<open>
  Two instances: \<^verbatim>\<open>POST /vandar/v1/ipgs?x=1\<close> is proxied with path
  \<^verbatim>\<open>/v1/ipgs?x=1\<close>, and \<^verbatim>\<open>GET /zibal/\<close> with path \<^verbatim>\<open>/\<close>.
\<close>

theorem gateway_path_is_proxied_witness:
  "handleRequest url_parse_pathname
     \<lparr>req_method = ''POST'', headers_host = Some ''pay.v1-domain.com'',
      url = ''/vandar/v1/ipgs?x=1''\<rparr>
     new_response
     = Inr (HandlePaymentGatewayProxy ''vandar'' ''/v1/ipgs?x=1'' (Own ''https://v1-domain.com/'')
             new_response)
   \<and> handleRequest url_parse_pathname
     \<lparr>req_method = ''GET'', headers_host = Some ''pay.v2-domain.com'', url = ''/zibal/''\<rparr>
     new_response
     = Inr (HandlePaymentGatewayProxy ''zibal'' ''/'' (Own ''https://v1-domain.com/'')
             new_response)"
  using gateway_path_is_proxied
    [of "\<lparr>req_method = ''POST'', headers_host = Some ''pay.v1-domain.com'',
          url = ''/vandar/v1/ipgs?x=1''\<rparr>"
        "''pay.v1-domain.com''" "''https://v1-domain.com/''" "''vandar''" "''v1/ipgs?x=1''"
        url_parse_pathname "''/vandar/v1/ipgs''" new_response]
    gateway_path_is_proxied
    [of "\<lparr>req_method = ''GET'', headers_host = Some ''pay.v2-domain.com'', url = ''/zibal/''\<rparr>"
        "''pay.v2-domain.com''" "''https://v1-domain.com/''" "''zibal''" "[]"
        url_parse_pathname "''/zibal/''" new_response]
  by (simp add: url_parse_pathname_def origin_form_pathname_def HOST_CONFIG_def
      PAYMENT_GATEWAYS_def)

text \<open>
  The claim as stated fails in its second part: the target \<^verbatim>\<open>/vandar\<close>, with nothing after
  the key, starts with none of the prefixes \<^verbatim>\<open>/vandar/\<close>, \<^verbatim>\<open>/zibal/\<close>,
  \<^verbatim>\<open>/zarinpal/\<close>; the request is not proxied but redirected.
\<close>

theorem bare_gateway_key_is_redirected:
  "handleRequest url_parse_pathname
     \<lparr>req_method = ''POST'', headers_host = Some ''pay.v1-domain.com'', url = ''/vandar''\<rparr>
     new_response
   = Inr (Responded
       \<lparr>headersSent = True, destroyed = False, writableEnded = True, statusCode = 302,
        sentHeaders = [(''Location'', Single ''https://api.myapp.com/vandar''),
                       (''Content-Type'', Single ''text/plain''),
                       (''Access-Control-Allow-Origin'', Single ''*'')],
        body = [''Redirecting to https://api.myapp.com/vandar'']\<rparr>)"
  by (simp add: handleRequest_def url_parse_pathname_def origin_form_pathname_def
      HOST_CONFIG_def get_property_def PAYMENT_GATEWAYS_def REDIRECTION_MAP_def
      handleRedirect_def writeHead_def res_end_def new_response_def Let_def)

lemma unknown_host_rejected:
  assumes "req_method req \<noteq> ''OPTIONS''"
    and "headers_host req = Some h" and "map_of HOST_CONFIG h = None"
    and "h \<notin> set Object_prototype"
    and "url_parse (url req) = Inr pathname"
  shows "handleRequest url_parse req r
           = map_sum id Responded (sendError r 400 ''Bad Request: Unrecognized host'')"
  using assms by (simp add: handleRequest_def get_property_def)

lemma absent_host_rejected:
  assumes "req_method req \<noteq> ''OPTIONS''" and "headers_host req = None"
    and "url_parse (url req) = Inr pathname"
  shows "handleRequest url_parse req r
           = map_sum id Responded (sendError r 400 ''Bad Request: Unrecognized host'')"
  using assms by (simp add: handleRequest_def)

text \<open>
  C3 does not hold of the code. The host check reads \<^verbatim>\<open>HOST_CONFIG[requestHost]\<close>,
  which also finds what the table inherits from \<^verbatim>\<open>Object.prototype\<close>. The Host value
  \<^verbatim>\<open>constructor\<close> is no key of HOST_CONFIG, yet the request is not rejected:
  \<^verbatim>\<open>GET /dashboard\<close> is answered with a 302 redirect, and \<^verbatim>\<open>GET /vandar/x\<close> is
  handed to handlePaymentGatewayProxy. The two lemmas above give the part that holds:
  when the target is parsed, an absent Host, and a Host that is neither a key of the
  table nor a property name of \<^verbatim>\<open>Object.prototype\<close>, are rejected with 400.
\<close>

theorem inherited_host_passes_validation:
  "map_of HOST_CONFIG ''constructor'' = None
   \<and> handleRequest url_parse_pathname
     \<lparr>req_method = ''GET'', headers_host = Some ''constructor'', url = ''/dashboard''\<rparr>
     new_response
   = Inr (Responded
       \<lparr>headersSent = True, destroyed = False, writableEnded = True, statusCode = 302,
        sentHeaders = [(''Location'', Single ''function Object() { [native code] }/dashboard''),
                       (''Content-Type'', Single ''text/plain''),
                       (''Access-Control-Allow-Origin'', Single ''*'')],
        body = [''Redirecting to function Object() { [native code] }/dashboard'']\<rparr>)
   \<and> handleRequest url_parse_pathname
     \<lparr>req_method = ''GET'', headers_host = Some ''constructor'', url = ''/vandar/x''\<rparr>
     new_response
   = Inr (HandlePaymentGatewayProxy ''vandar'' ''/x'' (Inherited ''constructor'') new_response)"
  by (simp add: handleRequest_def url_parse_pathname_def origin_form_pathname_def
      HOST_CONFIG_def get_property_def Object_prototype_def PAYMENT_GATEWAYS_def
      REDIRECTION_MAP_def handleRedirect_def writeHead_def res_end_def new_response_def
      Let_def)














text \<open>
  The part of the host check that holds on the code: a request that is not OPTIONS, whose
  target is parsed, and that has no Host, or a Host that is neither a key of HOST_CONFIG
  nor a property name of \<^verbatim>\<open>Object.prototype\<close>, is answered with status 400, whatever
  the parsed pathname is.
\<close>

theorem host_outside_table_rejected:
  assumes "req_method req \<noteq> ''OPTIONS''"
    and "headers_host req = None
         \<or> (\<exists>h. headers_host req = Some h \<and> h \<notin> fst ` set HOST_CONFIG
                \<and> h \<notin> set Object_prototype)"
    and "url_parse (url req) = Inr pathname"
  shows "handleRequest url_parse req new_response
           = Inr (Responded
               \<lparr>headersSent = True, destroyed = False, writableEnded = True, statusCode = 400,
                sentHeaders = [(''Content-Type'', Single ''text/plain'')],
                body = [''Bad Request: Unrecognized host'']\<rparr>)"
  using assms(2)
proof
  assume "headers_host req = None"
  from absent_host_rejected [where url_parse = url_parse, OF assms(1) this assms(3)]
  show ?thesis
    by (simp add: sendError_new_response)
next
  assume "\<exists>h. headers_host req = Some h \<and> h \<notin> fst ` set HOST_CONFIG \<and> h \<notin> set Object_prototype"
  then obtain h where h: "headers_host req = Some h" "h \<notin> fst ` set HOST_CONFIG"
    "h \<notin> set Object_prototype"
    by blast
  from h(2) have "map_of HOST_CONFIG h = None"
    by (simp add: map_of_eq_None_iff)
  from unknown_host_rejected [where url_parse = url_parse, OF assms(1) h(1) this h(3) assms(3)]
  show ?thesis
    by (simp add: sendError_new_response)
qed

text \<open>Instances: an unknown host, and a gateway path without a Host header.\<close>

theorem host_outside_table_rejected_witness:
  "handleRequest url_parse_pathname
     \<lparr>req_method = ''GET'', headers_host = Some ''unknown.example.com'', url = ''/anything''\<rparr>
     new_response
     = Inr (Responded
               \<lparr>headersSent = True, destroyed = False, writableEnded = True, statusCode = 400,
                sentHeaders = [(''Content-Type'', Single ''text/plain'')],
                body = [''Bad Request: Unrecognized host'']\<rparr>)
   \<and> handleRequest url_parse_pathname
     \<lparr>req_method = ''GET'', headers_host = None, url = ''/vandar/x''\<rparr>
     new_response
     = Inr (Responded
               \<lparr>headersSent = True, destroyed = False, writableEnded = True, statusCode = 400,
                sentHeaders = [(''Content-Type'', Single ''text/plain'')],
                body = [''Bad Request: Unrecognized host'']\<rparr>)"
  using host_outside_table_rejected
    [of "\<lparr>req_method = ''GET'', headers_host = Some ''unknown.example.com'',
          url = ''/anything''\<rparr>" url_parse_pathname "Some ''/anything''"]
    host_outside_table_rejected
    [of "\<lparr>req_method = ''GET'', headers_host = None, url = ''/vandar/x''\<rparr>"
        url_parse_pathname "Some ''/vandar/x''"]
  by (simp add: HOST_CONFIG_def Object_prototype_def url_parse_pathname_def
      origin_form_pathname_def)

section \<open>Properties of sendError\<close>


lemma on_response_headersSent:
  assumes "on_response status a st = Inr st1"
  shows "headersSent (res st1) \<and> promise st1 = promise st"
  using assms
  by (auto simp: on_response_def writeHead_def Let_def split: prod.splits if_splits)

lemma response_event_headersSent:
  assumes "handlePaymentGatewayProxy_event (Response status a) st = Inr st1"
  shows "headersSent (res st1)"
proof -
  from assms obtain st0 where st0: "on_response status a st = Inr st0"
    by (auto simp: handlePaymentGatewayProxy_event_def split: sum.splits)
  note inv = on_response_headersSent [OF st0]
  have "st1 = st0"
    using assms st0 inv
    by (cases "promise st") (auto simp: handlePaymentGatewayProxy_event_def)
  with inv show ?thesis by simp
qed

lemma data_event_headersSent:
  assumes "handlePaymentGatewayProxy_event (Data chunk) st = Inr st1" and "headersSent (res st)"
  shows "headersSent (res st1)"
  using assms
  by (cases "promise st")
     (auto simp: handlePaymentGatewayProxy_event_def res_write_def split: if_splits)

lemma data_events_headersSent:
  assumes "run_events (map Data chunks) st = Inr st1" and "headersSent (res st)"
  shows "headersSent (res st1)"
  using assms
proof (induction chunks arbitrary: st)
  case Nil
  then show ?case by simp
next
  case (Cons c cs)
  from Cons.prems(1) obtain st0 where
    step: "handlePaymentGatewayProxy_event (Data c) st = Inr st0" and
    rest: "run_events (map Data cs) st0 = Inr st1"
    by (auto split: sum.splits)
  from Cons.IH [OF rest data_event_headersSent [OF step Cons.prems(2)]] show ?case .
qed

text \<open>
  C5. sendError writes at most once and is a silent no-op on a response that has been
  written to or destroyed. On a response whose head has been sent, or whose connection is
  destroyed, it returns the response unchanged and raises nothing, whatever the status.
  With a status code that \<^verbatim>\<open>writeHead\<close> accepts (the code passes 400, 500 and 504), the
  first call returns, and a second call, with any status and message, returns what the
  first call left; whenever a call returns, the next call changes nothing. After the
  response callback has written the upstream head and any number of chunks have been
  streamed, it returns the response unchanged.
\<close>

theorem sendError_at_most_once:
  "(headersSent r \<or> destroyed r \<longrightarrow> sendError r status message = Inr r)
   \<and> (100 \<le> status \<and> status \<le> 999 \<longrightarrow>
        (\<exists>r1. sendError r status message = Inr r1
            \<and> sendError r1 status2 message2 = Inr r1))
   \<and> (sendError r status message = Inr r' \<longrightarrow> sendError r' status2 message2 = Inr r')
   \<and> (run_events (Response upstream a # map Data chunks) st = Inr st2
        \<longrightarrow> sendError (res st2) status message = Inr (res st2))"
proof (intro conjI impI)
  assume "headersSent r \<or> destroyed r"
  then show "sendError r status message = Inr r"
    by (simp add: sendError_def)
next
  assume "100 \<le> status \<and> status \<le> 999"
  then obtain r1 where r1: "sendError r status message = Inr r1"
    by (simp add: sendError_cases)
  from sendError_settles [OF r1] have "sendError r1 status2 message2 = Inr r1"
    by (simp add: sendError_def)
  with r1 show "\<exists>r1. sendError r status message = Inr r1 \<and> sendError r1 status2 message2 = Inr r1"
    by blast
next
  assume "sendError r status message = Inr r'"
  from sendError_settles [OF this] show "sendError r' status2 message2 = Inr r'"
    by (simp add: sendError_def)
next
  assume "run_events (Response upstream a # map Data chunks) st = Inr st2"
  then obtain st1 where
    first: "handlePaymentGatewayProxy_event (Response upstream a) st = Inr st1" and
    rest: "run_events (map Data chunks) st1 = Inr st2"
    by (auto split: sum.splits)
  from data_events_headersSent [OF rest response_event_headersSent [OF first]]
  show "sendError (res st2) status message = Inr (res st2)"
    by (simp add: sendError_def)
qed

text \<open>
  Instances: a 504 on a destroyed response changes nothing; on a new response the 504 is
  written and a following 500 changes nothing; after an upstream 200 and one streamed
  chunk a 504 changes nothing.
\<close>

theorem sendError_at_most_once_witness:
  "sendError (new_response\<lparr>destroyed := True\<rparr>) 504 ''Gateway Timeout''
     = Inr (new_response\<lparr>destroyed := True\<rparr>)
   \<and> (\<exists>r1. sendError new_response 504 ''Gateway Timeout'' = Inr r1
         \<and> statusCode r1 = 504
         \<and> sendError r1 500 ''Proxy Error'' = Inr r1)
   \<and> (\<exists>st2. run_events [Response 200 0, Data ''abc'']
               \<lparr>res = new_response, heap = [[(''content-type'', Single ''text/plain'')]],
                proxyReq_destroyed = False, proxyRes_listening = False, promise = Pending\<rparr>
             = Inr st2
         \<and> body (res st2) = [''abc'']
         \<and> sendError (res st2) 504 ''Gateway Timeout'' = Inr (res st2))"
proof (intro conjI)
  show "sendError (new_response\<lparr>destroyed := True\<rparr>) 504 ''Gateway Timeout''
          = Inr (new_response\<lparr>destroyed := True\<rparr>)"
    using sendError_at_most_once
      [of "new_response\<lparr>destroyed := True\<rparr>" 504 "''Gateway Timeout''"]
    by simp
next
  have "(100::nat) \<le> 504 \<and> (504::nat) \<le> 999" by simp
  with sendError_at_most_once [of new_response 504 "''Gateway Timeout''" 500 "''Proxy Error''"]
  obtain r1 where r1: "sendError new_response 504 ''Gateway Timeout'' = Inr r1"
    "sendError r1 500 ''Proxy Error'' = Inr r1"
    by blast
  from r1(1) have "statusCode r1 = 504"
    by (auto simp: sendError_new_response)
  with r1 show "\<exists>r1. sendError new_response 504 ''Gateway Timeout'' = Inr r1
         \<and> statusCode r1 = 504 \<and> sendError r1 500 ''Proxy Error'' = Inr r1"
    by blast
next
  let ?start = "\<lparr>res = new_response, heap = [[(''content-type'', Single ''text/plain'')]],
              proxyReq_destroyed = False, proxyRes_listening = False, promise = Pending\<rparr>"
  let ?written =
    "[(''content-type'', Single ''text/plain''),
      (''Access-Control-Allow-Origin'', Single ''*''),
      (''Access-Control-Allow-Methods'', Single ''GET, POST, PUT, DELETE, OPTIONS''),
      (''Access-Control-Allow-Headers'', Single ''Content-Type, Authorization'')]"
  let ?after = "\<lparr>res = \<lparr>headersSent = True, destroyed = False, writableEnded = False,
                       statusCode = 200, sentHeaders = ?written, body = [''abc'']\<rparr>,
               heap = [[(''content-type'', Single ''text/plain'')], ?written],
               proxyReq_destroyed = False, proxyRes_listening = True, promise = Pending\<rparr>"
  have run: "run_events (Response 200 0 # map Data [''abc'']) ?start = Inr ?after"
    by (simp add: handlePaymentGatewayProxy_event_def on_response_def sanitizeHeaders_def
        spread_def delete_property_def set_property_def HOP_BY_HOP_HEADERS_def writeHead_def
        res_write_def new_response_def)
  from sendError_at_most_once
    [of _ 504 "''Gateway Timeout''" _ _ _ 200 0 "[''abc'']" ?start ?after] run
  have "sendError (res ?after) 504 ''Gateway Timeout'' = Inr (res ?after)"
    by blast
  with run show "\<exists>st2. run_events [Response 200 0, Data ''abc''] ?start = Inr st2
         \<and> body (res st2) = [''abc'']
         \<and> sendError (res st2) 504 ''Gateway Timeout'' = Inr (res st2)"
    by (intro exI [of _ ?after]) simp
qed

section \<open>Properties of proxyRequest\<close>







text \<open>
  C6 (as amended). On a timeout the outbound request is destroyed, and a 504 response is
  written exactly when the inbound head has not been sent and the inbound connection is
  not destroyed. On an error of the outbound request a 500 response is written under the
  same condition, and so it is on an error of the upstream response once its handler is
  registered. In every other case the inbound response is left as it was: no second
  status line is written, also not by the catch block of handlePaymentGatewayProxy.
\<close>

theorem forwarding_failure_response:
  "(\<exists>st'. handlePaymentGatewayProxy_event Timeout st = Inr st'
       \<and> proxyReq_destroyed st'
       \<and> res st' =
           (if \<not> headersSent (res st) \<and> \<not> destroyed (res st)
            then (res st)\<lparr>statusCode := 504,
                   sentHeaders := [(''Content-Type'', Single ''text/plain'')],
                   headersSent := True,
                   body := (if writableEnded (res st) then body (res st)
                            else body (res st) @ [''Gateway Timeout'']),
                   writableEnded := True\<rparr>
            else res st))
   \<and> (\<exists>st'. handlePaymentGatewayProxy_event (RequestError e) st = Inr st'
       \<and> res st' =
           (if \<not> headersSent (res st) \<and> \<not> destroyed (res st)
            then (res st)\<lparr>statusCode := 500,
                   sentHeaders := [(''Content-Type'', Single ''text/plain'')],
                   headersSent := True,
                   body := (if writableEnded (res st) then body (res st)
                            else body (res st) @ [''Internal Server Error'']),
                   writableEnded := True\<rparr>
            else res st))
   \<and> (\<exists>st'. handlePaymentGatewayProxy_event (ResponseError e) st = Inr st'
       \<and> res st' =
           (if proxyRes_listening st \<and> \<not> headersSent (res st) \<and> \<not> destroyed (res st)
            then (res st)\<lparr>statusCode := 500,
                   sentHeaders := [(''Content-Type'', Single ''text/plain'')],
                   headersSent := True,
                   body := (if writableEnded (res st) then body (res st)
                            else body (res st) @ [''Internal Server Error'']),
                   writableEnded := True\<rparr>
            else res st))"
proof (intro conjI)
  show "\<exists>st'. handlePaymentGatewayProxy_event Timeout st = Inr st'
       \<and> proxyReq_destroyed st'
       \<and> res st' =
           (if \<not> headersSent (res st) \<and> \<not> destroyed (res st)
            then (res st)\<lparr>statusCode := 504,
                   sentHeaders := [(''Content-Type'', Single ''text/plain'')],
                   headersSent := True,
                   body := (if writableEnded (res st) then body (res st)
                            else body (res st) @ [''Gateway Timeout'']),
                   writableEnded := True\<rparr>
            else res st)"
    by (cases "promise st")
       (simp_all add: handlePaymentGatewayProxy_event_def sendError_cases reject_def
          destroy_proxyReq_def Let_def)
next
  show "\<exists>st'. handlePaymentGatewayProxy_event (RequestError e) st = Inr st'
       \<and> res st' =
           (if \<not> headersSent (res st) \<and> \<not> destroyed (res st)
            then (res st)\<lparr>statusCode := 500,
                   sentHeaders := [(''Content-Type'', Single ''text/plain'')],
                   headersSent := True,
                   body := (if writableEnded (res st) then body (res st)
                            else body (res st) @ [''Internal Server Error'']),
                   writableEnded := True\<rparr>
            else res st)"
    by (cases "promise st")
       (simp_all add: handlePaymentGatewayProxy_event_def sendError_cases reject_def)
next
  show "\<exists>st'. handlePaymentGatewayProxy_event (ResponseError e) st = Inr st'
       \<and> res st' =
           (if proxyRes_listening st \<and> \<not> headersSent (res st) \<and> \<not> destroyed (res st)
            then (res st)\<lparr>statusCode := 500,
                   sentHeaders := [(''Content-Type'', Single ''text/plain'')],
                   headersSent := True,
                   body := (if writableEnded (res st) then body (res st)
                            else body (res st) @ [''Internal Server Error'']),
                   writableEnded := True\<rparr>
            else res st)"
    by (cases "promise st")
       (simp_all add: handlePaymentGatewayProxy_event_def sendError_cases reject_def)
qed

text \<open>
  Instances on a new response and after an upstream head: the timeout writes the 504
  in the first case and leaves the 200 in the second.
\<close>

theorem forwarding_failure_response_witness:
  "(\<exists>st'. handlePaymentGatewayProxy_event Timeout
             \<lparr>res = new_response, heap = [], proxyReq_destroyed = False,
              proxyRes_listening = False, promise = Pending\<rparr> = Inr st'
        \<and> proxyReq_destroyed st'
        \<and> res st' = \<lparr>headersSent = True, destroyed = False, writableEnded = True,
                       statusCode = 504,
                       sentHeaders = [(''Content-Type'', Single ''text/plain'')],
                       body = [''Gateway Timeout'']\<rparr>)
   \<and> (\<exists>st'. handlePaymentGatewayProxy_event Timeout
             \<lparr>res = new_response\<lparr>headersSent := True, body := [''abc'']\<rparr>, heap = [],
              proxyReq_destroyed = False, proxyRes_listening = True, promise = Pending\<rparr>
            = Inr st'
        \<and> proxyReq_destroyed st'
        \<and> res st' = new_response\<lparr>headersSent := True, body := [''abc'']\<rparr>)"
  using forwarding_failure_response
    [of "\<lparr>res = new_response, heap = [], proxyReq_destroyed = False,
          proxyRes_listening = False, promise = Pending\<rparr>", THEN conjunct1]
    forwarding_failure_response
    [of "\<lparr>res = new_response\<lparr>headersSent := True, body := [''abc'']\<rparr>, heap = [],
          proxyReq_destroyed = False, proxyRes_listening = True, promise = Pending\<rparr>",
     THEN conjunct1]
  by (auto simp add: new_response_def)

text \<open>
  The claim as stated fails: on a response whose connection is destroyed no byte has been
  written, and neither the timeout nor an error of the outbound request writes a
  response to it.
\<close>

theorem timeout_on_destroyed_response:
  "\<not> headersSent (res \<lparr>res = new_response\<lparr>destroyed := True\<rparr>, heap = [],
         proxyReq_destroyed = False, proxyRes_listening = False, promise = Pending\<rparr>)
   \<and> body (res \<lparr>res = new_response\<lparr>destroyed := True\<rparr>, heap = [],
         proxyReq_destroyed = False, proxyRes_listening = False, promise = Pending\<rparr>) = []
   \<and> handlePaymentGatewayProxy_event Timeout
        \<lparr>res = new_response\<lparr>destroyed := True\<rparr>, heap = [],
         proxyReq_destroyed = False, proxyRes_listening = False, promise = Pending\<rparr>
       = Inr \<lparr>res = new_response\<lparr>destroyed := True\<rparr>, heap = [],
              proxyReq_destroyed = True, proxyRes_listening = False,
              promise = Rejected ''Request timeout''\<rparr>
   \<and> handlePaymentGatewayProxy_event (RequestError ''socket hang up'')
        \<lparr>res = new_response\<lparr>destroyed := True\<rparr>, heap = [],
         proxyReq_destroyed = False, proxyRes_listening = False, promise = Pending\<rparr>
       = Inr \<lparr>res = new_response\<lparr>destroyed := True\<rparr>, heap = [],
              proxyReq_destroyed = False, proxyRes_listening = False,
              promise = Rejected ''socket hang up''\<rparr>"
  by (simp add: handlePaymentGatewayProxy_event_def sendError_def reject_def
      destroy_proxyReq_def new_response_def)

lemma proxyRequest_event_invariant:
  assumes "proxyRequest_event ev st = Inr st1" and "head_before_listening st"
  shows "head_before_listening st1"
proof (cases ev)
  case (Response status a)
  with assms(1) on_response_headersSent [of status a st st1] show ?thesis
    by (simp add: head_before_listening_def)
next
  case (Data chunk)
  with assms show ?thesis
    by (auto simp: head_before_listening_def res_write_def split: if_splits)
next
  case End
  with assms show ?thesis
    by (auto simp: head_before_listening_def res_end_def resolve_def split: if_splits)
next
  case (ResponseError e)
  with assms show ?thesis
    by (auto simp: head_before_listening_def sendError_cases reject_def split: if_splits)
next
  case (RequestError e)
  with assms show ?thesis
    by (auto simp: head_before_listening_def sendError_cases reject_def split: if_splits)
next
  case Timeout
  with assms show ?thesis
    by (auto simp: head_before_listening_def sendError_cases reject_def destroy_proxyReq_def
        Let_def split: if_splits)
next
  case Close
  with assms show ?thesis
    by (auto simp: head_before_listening_def destroy_proxyReq_def split: if_splits)
next
  case (ClientError e)
  with assms show ?thesis
    by (auto simp: head_before_listening_def reject_def destroy_proxyReq_def split: if_splits)
qed

lemma event_invariant:
  assumes "handlePaymentGatewayProxy_event ev st = Inr st1" and "head_before_listening st"
  shows "head_before_listening st1"
proof -
  from assms(1) obtain st0 where st0: "proxyRequest_event ev st = Inr st0"
    by (auto simp: handlePaymentGatewayProxy_event_def split: sum.splits)
  note inv = proxyRequest_event_invariant [OF st0 assms(2)]
  from assms(1) st0 have "st1 = st0 \<or> (\<exists>r. sendError (res st0) 500 ''Proxy Error'' = Inr r \<and> st1 = st0\<lparr>res := r\<rparr>)"
    by (auto simp: handlePaymentGatewayProxy_event_def split: promise.splits sum.splits)
  with inv show ?thesis
    by (auto simp: head_before_listening_def sendError_cases split: if_splits)
qed

lemma run_events_invariant:
  assumes "run_events evs st = Inr st1" and "head_before_listening st"
  shows "head_before_listening st1"
  using assms
proof (induction evs arbitrary: st)
  case Nil
  then show ?case by simp
next
  case (Cons ev evs)
  from Cons.prems(1) obtain st0 where
    step: "handlePaymentGatewayProxy_event ev st = Inr st0" and
    rest: "run_events evs st0 = Inr st1"
    by (auto split: sum.splits)
  from Cons.IH [OF rest event_invariant [OF step Cons.prems(2)]] show ?case .
qed

text \<open>
  In every state that a forwarding attempt reaches from its start, an error of the
  upstream response leaves the inbound response as it is: its handler exists only after
  the head has been written, so its sendError writes nothing, and nothing ends the
  response.
\<close>

theorem upstream_error_never_writes:
  assumes "\<not> proxyRes_listening st0" and "run_events evs st0 = Inr st"
  shows "\<exists>st'. handlePaymentGatewayProxy_event (ResponseError e) st = Inr st' \<and> res st' = res st"
proof -
  have "head_before_listening st0"
    using assms(1) by (simp add: head_before_listening_def)
  from run_events_invariant [OF assms(2) this]
  have "proxyRes_listening st \<longrightarrow> headersSent (res st)"
    by (simp add: head_before_listening_def)
  then show ?thesis
    by (cases "promise st")
       (auto simp: handlePaymentGatewayProxy_event_def sendError_cases reject_def)
qed

text \<open>
  An instance: after an upstream 200 and one chunk, the error leaves status, body and
  the open response as they are.
\<close>

theorem upstream_error_never_writes_witness:
  "\<exists>st'. handlePaymentGatewayProxy_event (ResponseError ''aborted'')
            \<lparr>res = \<lparr>headersSent = True, destroyed = False, writableEnded = False,
                    statusCode = 200,
                    sentHeaders =
                      [(''Access-Control-Allow-Origin'', Single ''*''),
                       (''Access-Control-Allow-Methods'', Single ''GET, POST, PUT, DELETE, OPTIONS''),
                       (''Access-Control-Allow-Headers'', Single ''Content-Type, Authorization'')],
                    body = [''abc'']\<rparr>,
             heap = [[], [(''Access-Control-Allow-Origin'', Single ''*''),
                       (''Access-Control-Allow-Methods'', Single ''GET, POST, PUT, DELETE, OPTIONS''),
                       (''Access-Control-Allow-Headers'', Single ''Content-Type, Authorization'')]],
             proxyReq_destroyed = False, proxyRes_listening = True, promise = Pending\<rparr>
          = Inr st'
      \<and> statusCode (res st') = 200 \<and> body (res st') = [''abc''] \<and> \<not> writableEnded (res st')"
proof -
  let ?start = "\<lparr>res = new_response, heap = [[]], proxyReq_destroyed = False,
               proxyRes_listening = False, promise = Pending\<rparr>"
  let ?cors = "[(''Access-Control-Allow-Origin'', Single ''*''),
                (''Access-Control-Allow-Methods'', Single ''GET, POST, PUT, DELETE, OPTIONS''),
                (''Access-Control-Allow-Headers'', Single ''Content-Type, Authorization'')]"
  let ?st = "\<lparr>res = \<lparr>headersSent = True, destroyed = False, writableEnded = False,
                    statusCode = 200, sentHeaders = ?cors, body = [''abc'']\<rparr>,
             heap = [[], ?cors],
             proxyReq_destroyed = False, proxyRes_listening = True, promise = Pending\<rparr>"
  have run: "run_events [Response 200 0, Data ''abc''] ?start = Inr ?st"
    by (simp add: handlePaymentGatewayProxy_event_def on_response_def sanitizeHeaders_def
        spread_def delete_property_def set_property_def HOP_BY_HOP_HEADERS_def writeHead_def
        res_write_def new_response_def)
  have "\<not> proxyRes_listening ?start" by simp
  from upstream_error_never_writes [OF this run, of "''aborted''"]
  show ?thesis by auto
qed

section \<open>Properties of the shutdown\<close>

lemma draining_first: "draining (shutdown signal running_server)"
  by (simp add: draining_def shutdown_def server_close_def running_server_def Let_def)

lemma draining_shutdown: "draining p \<Longrightarrow> draining (shutdown signal p)"
  by (auto simp: draining_def shutdown_def server_close_def Let_def split: list.splits)

lemma exited_callbacks:
  "exit_status q \<noteq> None \<Longrightarrow> foldl (\<lambda>q cb. close_callback cb q) q cbs = q"
  by (induction cbs arbitrary: q) auto

lemma draining_close: "draining p \<Longrightarrow> exit_status (server_emits_close p) = Some 0"
proof -
  assume d: "draining p"
  then obtain t cbs where cbs: "close_callbacks p = (t, False) # cbs"
    by (auto simp: draining_def split: list.splits)
  let ?q = "close_callback (t, False) (p\<lparr>close_callbacks := []\<rparr>)"
  have q: "exit_status ?q = Some 0"
    using d by (simp add: draining_def process_exit_def Let_def)
  then have "foldl (\<lambda>q cb. close_callback cb q) ?q cbs = ?q"
    by (intro exited_callbacks) simp
  then have "server_emits_close p = ?q"
    using d cbs by (simp add: server_emits_close_def draining_def)
  with q show ?thesis by simp
qed

lemma draining_timer: "draining p \<Longrightarrow> exit_status (timer_expires p) = Some 1"
  by (auto simp: draining_def timer_expires_def process_exit_def split: list.splits)

lemma exited_step: "exit_status p = Some c \<Longrightarrow> process_step ev p = p"
  by (cases ev) (simp_all add: shutdown_def timer_expires_def server_emits_close_def)

lemma exited_run: "exit_status p = Some c \<Longrightarrow> run_process evs p = p"
  by (induction evs) (simp_all add: exited_step)

lemma signals_do_not_change_exit:
  assumes "draining p" and "draining q"
  shows "exit_status (run_process evs p)
           = exit_status (run_process (filter (\<lambda>ev. \<not> is_signal ev) evs) q)"
  using assms
proof (induction evs arbitrary: p q)
  case Nil
  then show ?case by (simp add: draining_def)
next
  case (Cons ev evs)
  show ?case
  proof (cases ev)
    case (Signal signal)
    with Cons.IH [OF draining_shutdown [OF Cons.prems(1)] Cons.prems(2)] show ?thesis
      by simp
  next
    case TimerExpires
    with exited_run [OF draining_timer [OF Cons.prems(1)]]
         exited_run [OF draining_timer [OF Cons.prems(2)]]
         draining_timer [OF Cons.prems(1)] draining_timer [OF Cons.prems(2)]
    show ?thesis by simp
  next
    case ServerClose
    with exited_run [OF draining_close [OF Cons.prems(1)]]
         exited_run [OF draining_close [OF Cons.prems(2)]]
         draining_close [OF Cons.prems(1)] draining_close [OF Cons.prems(2)]
    show ?thesis by simp
  qed
qed

text \<open>
  C9 (as amended). After the first signal, further signals do not change how the process
  exits: for every sequence of events that follows, the exit status is the one the same
  sequence without its signals gives. When the server closes after any number of further
  signals the status is 0, and when the grace timer expires instead the status is 1.
\<close>

theorem later_signals_keep_exit_status:
  "exit_status (run_process evs (shutdown signal running_server))
     = exit_status (run_process (filter (\<lambda>ev. \<not> is_signal ev) evs)
                      (shutdown signal running_server))
   \<and> exit_status (run_process (map Signal later @ [ServerClose])
                    (shutdown signal running_server)) = Some 0
   \<and> exit_status (run_process (map Signal later @ [TimerExpires])
                    (shutdown signal running_server)) = Some 1"
proof (intro conjI)
  note d = draining_first [of signal]
  show "exit_status (run_process evs (shutdown signal running_server))
     = exit_status (run_process (filter (\<lambda>ev. \<not> is_signal ev) evs)
                      (shutdown signal running_server))"
    by (rule signals_do_not_change_exit [OF d d])
  have none: "filter (\<lambda>ev. \<not> is_signal ev) (map Signal later) = []"
    by (induction later) simp_all
  show "exit_status (run_process (map Signal later @ [ServerClose])
                    (shutdown signal running_server)) = Some 0"
    using signals_do_not_change_exit [OF d d, of "map Signal later @ [ServerClose]"]
      draining_close [OF d]
    by (simp add: none)
  show "exit_status (run_process (map Signal later @ [TimerExpires])
                    (shutdown signal running_server)) = Some 1"
    using signals_do_not_change_exit [OF d d, of "map Signal later @ [TimerExpires]"]
      draining_timer [OF d]
    by (simp add: none)
qed

text \<open>An instance: SIGINT, then SIGTERM while draining, then the server closes.\<close>

theorem later_signals_keep_exit_status_witness:
  "exit_status (run_process [Signal ''SIGTERM'', ServerClose] (shutdown ''SIGINT'' running_server))
     = exit_status (run_process [ServerClose] (shutdown ''SIGINT'' running_server))
   \<and> exit_status (run_process [Signal ''SIGTERM'', ServerClose]
                    (shutdown ''SIGINT'' running_server)) = Some 0
   \<and> exit_status (run_process [Signal ''SIGTERM'', TimerExpires]
                    (shutdown ''SIGINT'' running_server)) = Some 1"
  using later_signals_keep_exit_status
    [of "[Signal ''SIGTERM'', ServerClose]" "''SIGINT''" "[''SIGTERM'']"]
  by auto

text \<open>
  The claim as stated fails in its first part: a signal that arrives while the server is
  draining is not without effect. It writes the log line again, arms a second forced-exit
  timer, and registers a second callback, which would be called with an error.
\<close>

theorem later_signal_changes_state:
  "shutdown ''SIGINT'' running_server
     = \<lparr>listening = False, timers = [0], next_timer = 1, close_callbacks = [(0, False)],
        console = [SignalReceived ''SIGINT''], exit_status = None\<rparr>
   \<and> shutdown ''SIGTERM'' (shutdown ''SIGINT'' running_server)
     = \<lparr>listening = False, timers = [0, 1], next_timer = 2,
        close_callbacks = [(0, False), (1, True)],
        console = [SignalReceived ''SIGINT'', SignalReceived ''SIGTERM''],
        exit_status = None\<rparr>"
  by (simp add: shutdown_def server_close_def running_server_def Let_def)
end
